theory Spec2Isabelle
  imports Main "HOL-Library.Word"
begin

unbundle bit_operations_syntax

section \<open>Framing constants\<close>

text \<open>
  The constant block of the package (the same three lines in both copies of the
  constants file). Go's untyped integer constants are exact, so they are integers here,
  and the right-hand sides are the source's expressions.
\<close>

definition NoiseMessageLength :: int where
  "NoiseMessageLength = 65535 - 2"

definition NoiseTagLength :: int where
  "NoiseTagLength = 16"

definition NoiseMaxPlaintextSize :: int where
  "NoiseMaxPlaintextSize = NoiseMessageLength - NoiseTagLength"

section \<open>Configuration\<close>

type_synonym byte = "8 word"

text \<open>
  Modelled from the spec: the declaration of \<open>noiseHandshakeType\<close> and of its constants
  \<open>Noise_NX\<close>, \<open>Noise_KX\<close>, ... is not among the source files (only their uses in
  \<open>checkRequirements\<close> are). The spec names the fifteen patterns
  \<open>N, K, X, NN, NK, NX, KN, KK, KX, XN, XK, XX, IN, IK, IX\<close>; the enum has one constructor
  for each, named as the code names the ones it mentions.
\<close>

datatype noiseHandshakeType =
    Noise_N | Noise_K | Noise_X
  | Noise_NN | Noise_NK | Noise_NX
  | Noise_KN | Noise_KK | Noise_KX
  | Noise_XN | Noise_XK | Noise_XX
  | Noise_IN | Noise_IK | Noise_IX

text \<open>
  \<open>KeyPair\<close> is used by the source as a struct of two \<open>[32]byte\<close> arrays
  (\<open>keyPair.PrivateKey[:]\<close>, \<open>keyPair.PublicKey[:]\<close>). Arrays are byte lists; that
  their length is 32 is a hypothesis wherever it matters.
\<close>

record KeyPair =
  PrivateKey :: "byte list"
  PublicKey :: "byte list"

text \<open>
  The \<open>Config\<close> struct whose fields \<open>checkRequirements\<close> reads. A pointer, a slice and a
  function value can each be \<open>nil\<close>: they are options, \<open>None\<close> being \<open>nil\<close>. (A
  non-nil empty slice is \<open>Some []\<close>.)
\<close>

record Config =
  HandshakePattern :: noiseHandshakeType
  KeyPair :: "KeyPair option"
  RemoteKey :: "byte list option"
  Prologue :: "byte list option"
  StaticPublicKeyProof :: "byte list option"
  PublicKeyVerifier :: "(byte list \<Rightarrow> byte list \<Rightarrow> bool) option"
  HalfDuplex :: bool

section \<open>Errors\<close>

text \<open>
  The error values the modelled functions can return: the two package-level errors of
  the requirement check, \<open>errors.New\<close> values (by their message), the dial timeout, the
  two errors of \<open>encoding/hex\<close>, and errors handed back by the operating system or the
  network (opaque, by a message).
\<close>

datatype error =
    errNoPubkeyVerifier
  | errNoProof
  | errorString string
  | timeoutError
  | InvalidByteError byte
  | ErrLength
  | PathError string
  | OpError string

section \<open>The requirement check\<close>

text \<open>
  \<open>checkRequirements\<close>: two \<open>if\<close> blocks in sequence. The first returns from inside
  when its pattern test and one of its two hook tests hold; otherwise control falls
  through to the second block, and then to \<open>return nil\<close>. \<open>None\<close> is the \<open>nil\<close> error.
\<close>

definition checkRequirements :: "bool \<Rightarrow> Config \<Rightarrow> error option" where
  "checkRequirements isClient config =
    (let ht = HandshakePattern config;
         first =
           (if ht = Noise_NX \<or> ht = Noise_KX \<or> ht = Noise_XX \<or> ht = Noise_IX then
              (if isClient \<and> PublicKeyVerifier config = None then Some errNoPubkeyVerifier
               else if \<not> isClient \<and> StaticPublicKeyProof config = None then Some errNoProof
               else None)
            else None)
     in case first of
          Some err \<Rightarrow> Some err
        | None \<Rightarrow>
           (if ht = Noise_XN \<or> ht = Noise_XK \<or> ht = Noise_XX \<or> ht = Noise_X
                \<or> ht = Noise_IN \<or> ht = Noise_IK \<or> ht = Noise_IX then
              (if isClient \<and> StaticPublicKeyProof config = None then Some errNoProof
               else if \<not> isClient \<and> PublicKeyVerifier config = None then Some errNoPubkeyVerifier
               else None)
            else None))"

text \<open>
  The validation table of the spec, written from its words, to compare the code with:
  row one (NX, KX, XX, IX) asks the initiator for the verifier and the responder for the
  proof; row two (XN, XK, X, IN, IK, IX, XX) asks the initiator for the proof and the
  responder for the verifier.
\<close>

definition table_row1 :: "noiseHandshakeType list" where
  "table_row1 = [Noise_NX, Noise_KX, Noise_XX, Noise_IX]"

definition table_row2 :: "noiseHandshakeType list" where
  "table_row2 = [Noise_XN, Noise_XK, Noise_X, Noise_IN, Noise_IK, Noise_IX, Noise_XX]"

definition table_requires_verifier :: "bool \<Rightarrow> noiseHandshakeType \<Rightarrow> bool" where
  "table_requires_verifier isClient ht =
     (if isClient then ht \<in> set table_row1 else ht \<in> set table_row2)"

definition table_requires_proof :: "bool \<Rightarrow> noiseHandshakeType \<Rightarrow> bool" where
  "table_requires_proof isClient ht =
     (if isClient then ht \<in> set table_row2 else ht \<in> set table_row1)"

definition hook_missing :: "bool \<Rightarrow> Config \<Rightarrow> bool" where
  "hook_missing isClient config =
     ((table_requires_verifier isClient (HandshakePattern config)
         \<and> PublicKeyVerifier config = None)
      \<or> (table_requires_proof isClient (HandshakePattern config)
         \<and> StaticPublicKeyProof config = None))"

section \<open>Panics and results\<close>

text \<open>
  A Go function either returns or panics. A panic carries a value: an error
  (\<open>panic(err)\<close>), a string (\<open>panic("...")\<close>), or the run-time error of an index out of
  range.
\<close>

datatype panic_value = PanicError error | PanicString string | IndexOutOfRange

datatype 'a outcome = Panic panic_value | Return 'a

section \<open>The library functions the key store calls\<close>

subsection \<open>encoding/hex\<close>

text \<open>
  \<open>const hextable = "0123456789abcdef"\<close>, as the bytes of its characters.
\<close>

definition hextable :: "byte list" where
  "hextable = map of_char ''0123456789abcdef''"

text \<open>
  \<open>hex.Encode(dst, src)\<close>: for each byte \<open>v\<close> of \<open>src\<close> it stores
  \<open>hextable[v>>4]\<close> at \<open>dst[j]\<close> and \<open>hextable[v&0x0f]\<close> at \<open>dst[j+1]\<close>, then
  adds 2 to \<open>j\<close>. It does not check that \<open>dst\<close> is long enough: a store past the end of
  \<open>dst\<close> is Go's index-out-of-range panic. The model returns the new \<open>dst\<close> (the
  callers here drop the returned count).
\<close>

fun hex_Encode_loop :: "byte list \<Rightarrow> nat \<Rightarrow> byte list \<Rightarrow> byte list outcome" where
  "hex_Encode_loop dst j [] = Return dst"
| "hex_Encode_loop dst j (v # src) =
     (if j + 1 < length dst then
        hex_Encode_loop
          (dst[j := hextable ! unat (drop_bit 4 v), j + 1 := hextable ! unat (v AND 0x0f)])
          (j + 2) src
      else Panic IndexOutOfRange)"

definition hex_Encode :: "byte list \<Rightarrow> byte list \<Rightarrow> byte list outcome" where
  "hex_Encode dst src = hex_Encode_loop dst 0 src"

text \<open>
  \<open>fromHexChar\<close>: the value of a hexadecimal digit, of either case; \<open>None\<close> is the
  \<open>false\<close> of its second result. The three ranges are \<open>'0'..'9'\<close>, \<open>'a'..'f'\<close> and
  \<open>'A'..'F'\<close>.
\<close>

definition fromHexChar :: "byte \<Rightarrow> byte option" where
  "fromHexChar c =
     (if of_char CHR ''0'' \<le> c \<and> c \<le> of_char CHR ''9'' then Some (c - of_char CHR ''0'')
      else if of_char CHR ''a'' \<le> c \<and> c \<le> of_char CHR ''f'' then
        Some (c - of_char CHR ''a'' + 10)
      else if of_char CHR ''A'' \<le> c \<and> c \<le> of_char CHR ''F'' then
        Some (c - of_char CHR ''A'' + 10)
      else None)"

text \<open>
  \<open>hex.Decode(dst, src)\<close>: it reads \<open>src\<close> two characters at a time, returns
  \<open>InvalidByteError\<close> at the first character that is no digit, stores
  \<open>(a << 4) | b\<close> at \<open>dst[i]\<close> otherwise, and returns \<open>ErrLength\<close> when one
  character is left over. The result is the new \<open>dst\<close> with the error (\<open>None\<close> for
  \<open>nil\<close>).
\<close>

fun hex_Decode_loop ::
  "byte list \<Rightarrow> nat \<Rightarrow> byte list \<Rightarrow> (byte list \<times> error option) outcome" where
  "hex_Decode_loop dst i [] = Return (dst, None)"
| "hex_Decode_loop dst i [p] =
     (case fromHexChar p of
        None \<Rightarrow> Return (dst, Some (InvalidByteError p))
      | Some a \<Rightarrow> Return (dst, Some ErrLength))"
| "hex_Decode_loop dst i (p # q # src) =
     (case fromHexChar p of
        None \<Rightarrow> Return (dst, Some (InvalidByteError p))
      | Some a \<Rightarrow>
         (case fromHexChar q of
            None \<Rightarrow> Return (dst, Some (InvalidByteError q))
          | Some b \<Rightarrow>
             (if i < length dst then
                hex_Decode_loop (dst[i := push_bit 4 a OR b]) (i + 1) src
              else Panic IndexOutOfRange)))"

definition hex_Decode :: "byte list \<Rightarrow> byte list \<Rightarrow> (byte list \<times> error option) outcome" where
  "hex_Decode dst src = hex_Decode_loop dst 0 src"

subsection \<open>The file system\<close>

text \<open>
  The files the key store reads and writes: a map from paths to files, each with its
  content and permission bits, and the paths the operating system refuses to open for
  writing. \<open>ioutil.WriteFile\<close> creates the file with the given permission when it does
  not exist, and replaces the content of an existing file, whose permission stays; a
  write that the system refuses leaves the files as they were. \<open>ioutil.ReadFile\<close>
  fails on a path that holds no file.
\<close>

record os_file =
  content :: "byte list"
  mode :: nat

record os_world =
  files :: "string \<rightharpoonup> os_file"
  unwritable :: "string \<Rightarrow> bool"

definition ioutil_WriteFile ::
  "string \<Rightarrow> byte list \<Rightarrow> nat \<Rightarrow> os_world \<Rightarrow> error option \<times> os_world" where
  "ioutil_WriteFile filename data perm w =
     (if unwritable w filename then (Some (PathError filename), w)
      else
        (None,
         w\<lparr>files := (files w)(filename \<mapsto>
              \<lparr>content = data,
               mode = (case files w filename of None \<Rightarrow> perm | Some f \<Rightarrow> mode f)\<rparr>)\<rparr>))"

definition ioutil_ReadFile :: "string \<Rightarrow> os_world \<Rightarrow> error + byte list" where
  "ioutil_ReadFile filename w =
     (case files w filename of
        None \<Rightarrow> Inl (PathError filename)
      | Some f \<Rightarrow> Inr (content f))"

subsection \<open>Key sizes of the Ed25519 library\<close>

text \<open>
  The constants of \<open>golang.org/x/crypto/ed25519\<close>: a public key is 32 bytes, and a
  private key is 64 bytes (the 32-byte seed followed by the public key).
  \<open>ed25519.GenerateKey\<close> returns keys of these sizes.
\<close>

definition ed25519_PublicKeySize :: nat where
  "ed25519_PublicKeySize = 32"

definition ed25519_PrivateKeySize :: nat where
  "ed25519_PrivateKeySize = 64"

section \<open>Storage of the root keys\<close>

text \<open>
  \<open>GenerateAndSaveNoiseRootKeyPair\<close>. The pair \<open>generated\<close> is what
  \<open>ed25519.GenerateKey(rand.Reader)\<close> returned (public key first; the source drops its
  error). The two buffers are \<open>[32 * 2]byte\<close> arrays, zero at first. The permissions
  are the octal literals \<open>0400\<close> (256) and \<open>0644\<close> (420).
\<close>

definition GenerateAndSaveNoiseRootKeyPair ::
  "byte list \<times> byte list \<Rightarrow> string \<Rightarrow> string \<Rightarrow> os_world
     \<Rightarrow> error option outcome \<times> os_world" where
  "GenerateAndSaveNoiseRootKeyPair generated NoiseRootPrivateKeyFile NoiseRootPublicKeyFile w =
     (let publicKey = fst generated;
          privateKey = snd generated
      in case hex_Encode (replicate (32 * 2) 0) publicKey of
           Panic p \<Rightarrow> (Panic p, w)
         | Return publicKeyHex \<Rightarrow>
        (case hex_Encode (replicate (32 * 2) 0) privateKey of
           Panic p \<Rightarrow> (Panic p, w)
         | Return privateKeyHex \<Rightarrow>
        (case ioutil_WriteFile NoiseRootPrivateKeyFile privateKeyHex 256 w of
           (Some err, w1) \<Rightarrow> (Return (Some err), w1)
         | (None, w1) \<Rightarrow>
        (case ioutil_WriteFile NoiseRootPublicKeyFile publicKeyHex 420 w1 of
           (Some err, w2) \<Rightarrow> (Return (Some err), w2)
         | (None, w2) \<Rightarrow> (Return None, w2)))))"

text \<open>
  \<open>LoadNoiseRootPublicKey\<close> and \<open>LoadNoiseRootPrivateKey\<close>: the same body on two
  paths. \<open>Inl err\<close> is the return \<open>nil, err\<close>; \<open>Inr key\<close> is \<open>key, nil\<close>.
\<close>

definition LoadNoiseRootPublicKey :: "string \<Rightarrow> os_world \<Rightarrow> (error + byte list) outcome" where
  "LoadNoiseRootPublicKey noiseRootPublicKey w =
     (case ioutil_ReadFile noiseRootPublicKey w of
        Inl err \<Rightarrow> Return (Inl err)
      | Inr publicKeyHex \<Rightarrow>
         (if length publicKeyHex \<noteq> 32 * 2 then
            Return (Inl (errorString
              ''Noise: Noise root public key file is not correctly formated''))
          else
            (case hex_Decode (replicate 32 0) publicKeyHex of
               Panic p \<Rightarrow> Panic p
             | Return (publicKey, Some err) \<Rightarrow> Return (Inl err)
             | Return (publicKey, None) \<Rightarrow> Return (Inr publicKey))))"

definition LoadNoiseRootPrivateKey :: "string \<Rightarrow> os_world \<Rightarrow> (error + byte list) outcome" where
  "LoadNoiseRootPrivateKey noiseRootPrivateKey w =
     (case ioutil_ReadFile noiseRootPrivateKey w of
        Inl err \<Rightarrow> Return (Inl err)
      | Inr privateKeyHex \<Rightarrow>
         (if length privateKeyHex \<noteq> 32 * 2 then
            Return (Inl (errorString
              ''Noise: Noise root private key file is not correctly formated''))
          else
            (case hex_Decode (replicate 32 0) privateKeyHex of
               Panic p \<Rightarrow> Panic p
             | Return (privateKey, Some err) \<Rightarrow> Return (Inl err)
             | Return (privateKey, None) \<Rightarrow> Return (Inr privateKey))))"

section \<open>Storage of the Noise static keys\<close>

text \<open>
  \<open>GenerateAndSaveNoiseKeyPair\<close>. \<open>keyPair\<close> is what \<open>GenerateKeypair()\<close> returned
  (that function is not among the source files; any key pair is allowed for). The
  buffer \<open>dataToWrite\<close> is a \<open>[128]byte\<close> array; \<open>dataToWrite[:64]\<close> and
  \<open>dataToWrite[64:]\<close> are its two halves, encoded into in place.
\<close>

definition GenerateAndSaveNoiseKeyPair ::
  "KeyPair \<Rightarrow> string \<Rightarrow> os_world \<Rightarrow> error option outcome \<times> os_world" where
  "GenerateAndSaveNoiseKeyPair keyPair NoiseKeyPairFile w =
     (let dataToWrite = replicate 128 0
      in case hex_Encode (take 64 dataToWrite) (PrivateKey keyPair) of
           Panic p \<Rightarrow> (Panic p, w)
         | Return low \<Rightarrow>
        (let dataToWrite = low @ drop 64 dataToWrite
         in case hex_Encode (drop 64 dataToWrite) (PublicKey keyPair) of
              Panic p \<Rightarrow> (Panic p, w)
            | Return high \<Rightarrow>
           (let dataToWrite = take 64 dataToWrite @ high
            in case ioutil_WriteFile NoiseKeyPairFile dataToWrite 420 w of
                 (Some err, w1) \<Rightarrow>
                   (Return (Some (errorString ''Noise: could not write on file at path'')), w1)
               | (None, w1) \<Rightarrow> (Return None, w1))))"

text \<open>
  \<open>LoadNoiseKeyPair\<close>. \<open>var keyPair KeyPair\<close> is two zero arrays of 32 bytes;
  \<open>keyPairString[:64]\<close> and \<open>keyPairString[64:]\<close> are the two halves of the file.
\<close>

definition LoadNoiseKeyPair :: "string \<Rightarrow> os_world \<Rightarrow> (error + KeyPair) outcome" where
  "LoadNoiseKeyPair noisePrivateKeyPairFile w =
     (case ioutil_ReadFile noisePrivateKeyPairFile w of
        Inl err \<Rightarrow> Return (Inl err)
      | Inr keyPairString \<Rightarrow>
         (if length keyPairString \<noteq> 64 * 2 then
            Return (Inl (errorString
              ''Noise: Noise key pair file is not correctly formated''))
          else
            (case hex_Decode (replicate 32 0) (take 64 keyPairString) of
               Panic p \<Rightarrow> Panic p
             | Return (priv, Some err) \<Rightarrow> Return (Inl err)
             | Return (priv, None) \<Rightarrow>
                (case hex_Decode (replicate 32 0) (drop 64 keyPairString) of
                   Panic p \<Rightarrow> Panic p
                 | Return (pub, Some err) \<Rightarrow> Return (Inl err)
                 | Return (pub, None) \<Rightarrow>
                     Return (Inr \<lparr>PrivateKey = priv, PublicKey = pub\<rparr>)))))"

section \<open>Connections, listeners and dialing\<close>

text \<open>
  The transport is the environment's: a raw listener and a raw connection are handles.
  A Noise connection is the struct the constructors \<open>Server\<close> and \<open>Client\<close> fill in:
  the raw connection, the config pointer and the role bit. (The fields are prefixed,
  since \<open>conn\<close> and \<open>config\<close> are also the names of the source's variables.)
\<close>

type_synonym net_Listener = nat
type_synonym net_Conn = nat

record Conn =
  Conn_conn :: net_Conn
  Conn_config :: "Config option"
  Conn_isClient :: bool

definition Server :: "net_Conn \<Rightarrow> Config option \<Rightarrow> Conn" where
  "Server conn config = \<lparr>Conn_conn = conn, Conn_config = config, Conn_isClient = False\<rparr>"

definition Client :: "net_Conn \<Rightarrow> Config option \<Rightarrow> Conn" where
  "Client conn config = \<lparr>Conn_conn = conn, Conn_config = config, Conn_isClient = True\<rparr>"

record listener =
  Listener :: net_Listener
  listener_config :: "Config option"

text \<open>
  \<open>Accept\<close>: \<open>accepted\<close> is what the raw listener's \<open>Accept\<close> returned. An accepted
  connection is a \<open>Server\<close> connection with the listener's config.
\<close>

definition Accept :: "listener \<Rightarrow> error + net_Conn \<Rightarrow> error + Conn" where
  "Accept l accepted =
     (case accepted of
        Inl err \<Rightarrow> Inl err
      | Inr c \<Rightarrow> Inr (Server c (listener_config l)))"

text \<open>
  What the network answers: the results of \<open>net.Listen\<close>, of \<open>dialer.Dial\<close> and of the
  handshake of a connection, and, where \<open>DialWithDialer\<close> waits on its channel for the
  timer and the handshake at once, whether the timer's value arrives first (the clock
  and the scheduler decide, so the environment does).
\<close>

record net_env =
  net_Listen :: "string \<Rightarrow> string \<Rightarrow> error + net_Listener"
  dialer_Dial :: "string \<Rightarrow> string \<Rightarrow> error + net_Conn"
  Handshake :: "Conn \<Rightarrow> error option"
  timer_first :: bool

text \<open>The calls that reach the network, in order.\<close>

datatype net_event =
    ListenCall string string
  | DialCall string string
  | HandshakeCall net_Conn
  | CloseCall net_Conn

text \<open>
  \<open>Listen\<close>: a nil config is returned as an error; a config the requirement check
  rejects is a panic with the check's error; then \<open>net.Listen\<close> is called. The result
  is the outcome with the network calls made.
\<close>

definition Listen ::
  "net_env \<Rightarrow> string \<Rightarrow> string \<Rightarrow> Config option
     \<Rightarrow> (error + listener) outcome \<times> net_event list" where
  "Listen env network laddr config =
     (case config of
        None \<Rightarrow> (Return (Inl (errorString ''Noise: no Config set'')), [])
      | Some cfg \<Rightarrow>
         (case checkRequirements True cfg of
            Some err \<Rightarrow> (Panic (PanicError err), [])
          | None \<Rightarrow>
             (case net_Listen env network laddr of
                Inl err \<Rightarrow> (Return (Inl err), [ListenCall network laddr])
              | Inr l \<Rightarrow>
                  (Return (Inr \<lparr>Listener = l, listener_config = config\<rparr>),
                   [ListenCall network laddr]))))"

text \<open>
  A \<open>net.Dialer\<close>, as far as \<open>DialWithDialer\<close> reads it: \<open>Timeout\<close> is a duration in
  nanoseconds (a signed 64-bit count), \<open>Deadline\<close> a time, here the nanoseconds since
  the zero time, so that \<open>IsZero\<close> is \<open>= 0\<close>. \<open>time.Until(t)\<close> is \<open>t - now\<close>, kept
  within the range of a duration.
\<close>

record Dialer =
  Timeout :: int
  Deadline :: int

definition time_Until :: "int \<Rightarrow> int \<Rightarrow> int" where
  "time_Until now t = max (- (2 ^ 63)) (min (2 ^ 63 - 1) (t - now))"

text \<open>
  \<open>DialWithDialer\<close>: the timeout is computed, a nil config and a rejected config are
  panics, then the dialer dials, the connection is made a \<open>Client\<close> connection and the
  handshake runs (against the timer when the timeout is not zero); an error of the
  handshake step closes the raw connection and is returned with a nil connection.
\<close>

definition DialWithDialer ::
  "net_env \<Rightarrow> int \<Rightarrow> Dialer \<Rightarrow> string \<Rightarrow> string \<Rightarrow> Config option
     \<Rightarrow> (error + Conn) outcome \<times> net_event list" where
  "DialWithDialer env now dialer network addr config =
     (let timeout =
            (if Deadline dialer \<noteq> 0 then
               (let deadlineTimeout = time_Until now (Deadline dialer)
                in if Timeout dialer = 0 \<or> deadlineTimeout < Timeout dialer
                   then deadlineTimeout else Timeout dialer)
             else Timeout dialer)
      in case config of
           None \<Rightarrow> (Panic (PanicString ''Noise: no Config set''), [])
         | Some cfg \<Rightarrow>
            (case checkRequirements True cfg of
               Some err \<Rightarrow> (Panic (PanicError err), [])
             | None \<Rightarrow>
                (case dialer_Dial env network addr of
                   Inl err \<Rightarrow> (Return (Inl err), [DialCall network addr])
                 | Inr rawConn \<Rightarrow>
                    (let conn = Client rawConn config;
                         err = (if timeout = 0 then Handshake env conn
                                else if timer_first env then Some timeoutError
                                else Handshake env conn)
                     in case err of
                          Some e \<Rightarrow>
                            (Return (Inl e),
                             [DialCall network addr, HandshakeCall rawConn, CloseCall rawConn])
                        | None \<Rightarrow>
                            (Return (Inr conn),
                             [DialCall network addr, HandshakeCall rawConn])))))"


section \<open>Reference notions the theorems compare the code with\<close>

text \<open>
  The lowercase hexadecimal text of a byte string, two characters for each byte, high
  nibble first: what "hex-encoded" means for the persisted key files.
\<close>

definition hex_of :: "byte list \<Rightarrow> byte list" where
  "hex_of src =
     concat (map (\<lambda>v. [hextable ! unat (drop_bit 4 v), hextable ! unat (v AND 0x0f)]) src)"

text \<open>
  Valid hexadecimal text: an even number of characters, each a hexadecimal digit of
  either case.
\<close>

definition hex_digits :: "byte list" where
  "hex_digits = map of_char ''0123456789abcdefABCDEF''"

definition valid_hex :: "byte list \<Rightarrow> bool" where
  "valid_hex s = (even (length s) \<and> list_all (\<lambda>c. c \<in> set hex_digits) s)"

section \<open>Concrete inputs\<close>

text \<open>A config of the given pattern with every optional field nil.\<close>

definition cfg_plain :: "noiseHandshakeType \<Rightarrow> Config" where
  "cfg_plain ht =
     \<lparr>HandshakePattern = ht, KeyPair = None, RemoteKey = None, Prologue = None,
      StaticPublicKeyProof = None, PublicKeyVerifier = None, HalfDuplex = False\<rparr>"

text \<open>
  Two NX configs: one with the verifier only (all an NX initiator needs, and not what
  an NX responder needs), one with the proof only (the reverse).
\<close>

definition cfg_NX_verifier_only :: Config where
  "cfg_NX_verifier_only =
     (cfg_plain Noise_NX)\<lparr>PublicKeyVerifier := Some (\<lambda>publicKey proof. True)\<rparr>"

definition cfg_NX_proof_only :: Config where
  "cfg_NX_proof_only = (cfg_plain Noise_NX)\<lparr>StaticPublicKeyProof := Some (replicate 64 0)\<rparr>"

text \<open>A network on which every call succeeds, and a dialer with no timeout.\<close>

definition env0 :: net_env where
  "env0 = \<lparr>net_Listen = (\<lambda>network laddr. Inr 7), dialer_Dial = (\<lambda>network addr. Inr 9),
            Handshake = (\<lambda>c. None), timer_first = False\<rparr>"

definition dialer0 :: Dialer where
  "dialer0 = \<lparr>Timeout = 0, Deadline = 0\<rparr>"




text \<open>File systems: an empty one, and one holding a single file.\<close>

definition empty_world :: os_world where
  "empty_world = \<lparr>files = Map.empty, unwritable = (\<lambda>filename. False)\<rparr>"

definition world_with :: "string \<Rightarrow> byte list \<Rightarrow> os_world" where
  "world_with filename data =
     \<lparr>files = [filename \<mapsto> \<lparr>content = data, mode = 420\<rparr>],
      unwritable = (\<lambda>f. False)\<rparr>"

definition kp0 :: KeyPair where
  "kp0 = \<lparr>PrivateKey = replicate 32 0x01, PublicKey = replicate 32 0xab\<rparr>"

section \<open>Theorems\<close>

subsection \<open>Framing limits\<close>

text \<open>
  C4. The compiled-in framing limits are the spec's numbers: the maximum frame body
  \<open>NoiseMessageLength\<close> is 65533, the tag length is 16, and the maximum plaintext per
  record \<open>NoiseMaxPlaintextSize\<close> is 65517, which is the frame body less the tag.
\<close>

theorem framing_limits:
  "NoiseMessageLength = 65533 \<and> NoiseTagLength = 16
   \<and> NoiseMaxPlaintextSize = 65517
   \<and> NoiseMaxPlaintextSize = NoiseMessageLength - NoiseTagLength"
  by (simp add: NoiseMessageLength_def NoiseTagLength_def NoiseMaxPlaintextSize_def)

subsection \<open>The requirement check against the validation table\<close>

lemma checkRequirements_error_kind:
  "checkRequirements isClient config = Some e \<Longrightarrow> e = errNoPubkeyVerifier \<or> e = errNoProof"
  by (simp add: checkRequirements_def Let_def split: if_splits option.splits)

lemma checkRequirements_hook_missing:
  "(checkRequirements isClient config \<noteq> None) = hook_missing isClient config"
  by (cases "HandshakePattern config"; cases isClient)
     (simp_all add: checkRequirements_def hook_missing_def table_requires_verifier_def
        table_requires_proof_def table_row1_def table_row2_def Let_def)

lemma checkRequirements_both_rows:
  assumes "HandshakePattern config = Noise_XX \<or> HandshakePattern config = Noise_IX"
  shows "(checkRequirements isClient config = None) =
           (PublicKeyVerifier config \<noteq> None \<and> StaticPublicKeyProof config \<noteq> None)"
  using assms by (cases isClient) (auto simp: checkRequirements_def Let_def)

text \<open>
  C1. For every config and either role, \<open>checkRequirements\<close> returns an error exactly
  when a hook that the validation table requires of that role for the config's pattern
  is nil: the verifier for an initiator on NX, KX, XX, IX and for a responder on XN, XK,
  X, IN, IK, IX, XX; the proof for an initiator on XN, XK, X, IN, IK, IX, XX and for a
  responder on NX, KX, XX, IX. On XX and IX, which stand in both rows, either role needs
  both hooks. In every other case the result is nil.
\<close>

theorem checkRequirements_follows_table:
  "(checkRequirements isClient config \<noteq> None) = hook_missing isClient config
   \<and> (HandshakePattern config = Noise_XX \<or> HandshakePattern config = Noise_IX \<longrightarrow>
        (checkRequirements isClient config = None) =
          (PublicKeyVerifier config \<noteq> None \<and> StaticPublicKeyProof config \<noteq> None))"
  using checkRequirements_hook_missing [of isClient config]
    checkRequirements_both_rows [of config isClient]
  by blast

theorem checkRequirements_follows_table_witness:
  "HandshakePattern (cfg_plain Noise_XX) = Noise_XX
   \<and> hook_missing True (cfg_plain Noise_XX)
   \<and> checkRequirements True (cfg_plain Noise_XX) \<noteq> None
   \<and> \<not> hook_missing False (cfg_plain Noise_NN)
   \<and> checkRequirements False (cfg_plain Noise_NN) = None"
proof -
  have h1: "hook_missing True (cfg_plain Noise_XX)"
    by (simp add: hook_missing_def table_requires_verifier_def table_row1_def cfg_plain_def)
  have h2: "\<not> hook_missing False (cfg_plain Noise_NN)"
    by (simp add: hook_missing_def table_requires_verifier_def table_requires_proof_def
        table_row1_def table_row2_def cfg_plain_def)
  have p: "HandshakePattern (cfg_plain Noise_XX) = Noise_XX"
    by (simp add: cfg_plain_def)
  from checkRequirements_follows_table [of True "cfg_plain Noise_XX"] h1
  have a: "checkRequirements True (cfg_plain Noise_XX) \<noteq> None" by blast
  from checkRequirements_follows_table [of False "cfg_plain Noise_NN"] h2
  have b: "checkRequirements False (cfg_plain Noise_NN) = None" by blast
  show ?thesis using a b h1 h2 p by blast
qed

text \<open>
  C10. For every config whose pattern is outside both rows of the table (NN, NK, KN, KK,
  N or K), \<open>checkRequirements\<close> returns nil for the initiator and for the responder,
  whatever the two hooks are.
\<close>

theorem checkRequirements_no_hook_patterns:
  assumes "HandshakePattern config
             \<in> {Noise_NN, Noise_NK, Noise_KN, Noise_KK, Noise_N, Noise_K}"
  shows "checkRequirements True config = None \<and> checkRequirements False config = None"
  using assms by (cases "HandshakePattern config") (simp_all add: checkRequirements_def)

theorem checkRequirements_no_hook_patterns_witness:
  "HandshakePattern (cfg_plain Noise_NN)
     \<in> {Noise_NN, Noise_NK, Noise_KN, Noise_KK, Noise_N, Noise_K}
   \<and> checkRequirements True (cfg_plain Noise_NN) = None
   \<and> checkRequirements False (cfg_plain Noise_NN) = None"
  using checkRequirements_no_hook_patterns [of "cfg_plain Noise_NN"]
  by (simp add: cfg_plain_def)

subsection \<open>Config errors at construction\<close>

text \<open>
  C2, as stated, fails: a config that lacks a mandatory hook is not reported by a
  returned error. With the XX config that has neither hook, missing for both roles,
  \<open>DialWithDialer\<close> and \<open>Listen\<close> both panic with \<open>errNoPubkeyVerifier\<close> (and make no
  network call).
\<close>

theorem construction_error_counterexample:
  "hook_missing True (cfg_plain Noise_XX) \<and> hook_missing False (cfg_plain Noise_XX)
   \<and> DialWithDialer env0 0 dialer0 ''tcp'' ''host:1'' (Some (cfg_plain Noise_XX))
       = (Panic (PanicError errNoPubkeyVerifier), [])
   \<and> Listen env0 ''tcp'' '':1'' (Some (cfg_plain Noise_XX))
       = (Panic (PanicError errNoPubkeyVerifier), [])"
  by (simp add: hook_missing_def table_requires_verifier_def table_row1_def table_row2_def
      DialWithDialer_def Listen_def checkRequirements_def cfg_plain_def)

text \<open>
  C2, amended. For every config that lacks a hook mandatory for the initiator of its
  pattern, \<open>DialWithDialer\<close> reports the config error at construction by panicking with
  it (\<open>errNoPubkeyVerifier\<close> or \<open>errNoProof\<close>, the error of the requirement check),
  not by returning it, and makes no network call. For every such config that also lacks
  a hook mandatory for the responder, \<open>Listen\<close> likewise panics with one of the two
  errors before any network call.
\<close>

theorem construction_panics_before_io:
  assumes "hook_missing True config"
  shows "\<exists>e. checkRequirements True config = Some e
           \<and> (e = errNoPubkeyVerifier \<or> e = errNoProof)
           \<and> DialWithDialer env now dialer network addr (Some config)
                = (Panic (PanicError e), [])
           \<and> (hook_missing False config \<longrightarrow>
                 (\<exists>e'. (e' = errNoPubkeyVerifier \<or> e' = errNoProof)
                   \<and> Listen env network laddr (Some config) = (Panic (PanicError e'), [])))"
proof -
  from assms obtain e where e: "checkRequirements True config = Some e"
    using checkRequirements_hook_missing [of True config] by auto
  have kind: "e = errNoPubkeyVerifier \<or> e = errNoProof"
    using e by (rule checkRequirements_error_kind)
  have dial: "DialWithDialer env now dialer network addr (Some config)
                = (Panic (PanicError e), [])"
    by (simp add: DialWithDialer_def e)
  have lis: "Listen env network laddr (Some config) = (Panic (PanicError e), [])"
    by (simp add: Listen_def e)
  show ?thesis using e kind dial lis by blast
qed

theorem construction_panics_before_io_witness:
  "hook_missing True (cfg_plain Noise_XX) \<and> hook_missing False (cfg_plain Noise_XX)
   \<and> (\<exists>e. DialWithDialer env0 0 dialer0 ''tcp'' ''host:1'' (Some (cfg_plain Noise_XX))
                = (Panic (PanicError e), []))
   \<and> (\<exists>e'. Listen env0 ''tcp'' '':1'' (Some (cfg_plain Noise_XX))
                = (Panic (PanicError e'), []))"
proof -
  have h1: "hook_missing True (cfg_plain Noise_XX)"
    by (simp add: hook_missing_def table_requires_verifier_def table_row1_def cfg_plain_def)
  have h2: "hook_missing False (cfg_plain Noise_XX)"
    by (simp add: hook_missing_def table_requires_verifier_def table_row2_def cfg_plain_def)
  from construction_panics_before_io
         [OF h1, of env0 0 dialer0 "''tcp''" "''host:1''" "'':1''"] h1 h2
  show ?thesis by blast
qed

text \<open>
  C3 says that \<open>Listen\<close>, whose accepted connections are responder connections,
  validates the responder column of the table. The code passes \<open>true\<close> for \<open>isClient\<close>,
  so it validates the initiator column. An NX config with the verifier and without the
  proof lacks what a responder needs (\<open>checkRequirements\<close> for the responder returns
  \<open>errNoProof\<close>), yet \<open>Listen\<close> accepts it and calls \<open>net.Listen\<close>, and the connections
  its listener accepts have \<open>isClient = false\<close>. An NX config with the proof and
  without the verifier has all a responder needs, yet \<open>Listen\<close> panics with
  \<open>errNoPubkeyVerifier\<close>.
\<close>

theorem Listen_checks_initiator_row:
  "hook_missing False cfg_NX_verifier_only
   \<and> checkRequirements False cfg_NX_verifier_only = Some errNoProof
   \<and> Listen env0 ''tcp'' '':1'' (Some cfg_NX_verifier_only)
       = (Return (Inr \<lparr>Listener = 7, listener_config = Some cfg_NX_verifier_only\<rparr>),
          [ListenCall ''tcp'' '':1''])
   \<and> Accept \<lparr>Listener = 7, listener_config = Some cfg_NX_verifier_only\<rparr> (Inr 3)
       = Inr \<lparr>Conn_conn = 3, Conn_config = Some cfg_NX_verifier_only, Conn_isClient = False\<rparr>
   \<and> \<not> hook_missing False cfg_NX_proof_only
   \<and> Listen env0 ''tcp'' '':1'' (Some cfg_NX_proof_only)
       = (Panic (PanicError errNoPubkeyVerifier), [])"
  by (simp add: hook_missing_def table_requires_verifier_def table_requires_proof_def
      table_row1_def table_row2_def Listen_def Accept_def Server_def checkRequirements_def
      cfg_NX_verifier_only_def cfg_NX_proof_only_def cfg_plain_def env0_def)

subsection \<open>Dialing under a timeout\<close>




subsection \<open>Hexadecimal encoding and decoding\<close>

lemma hextable_bytes:
  "hextable = [0x30, 0x31, 0x32, 0x33, 0x34, 0x35, 0x36, 0x37, 0x38, 0x39,
               0x61, 0x62, 0x63, 0x64, 0x65, 0x66]"
  by (simp add: hextable_def)

lemma fromHexChar_ranges:
  "fromHexChar c =
     (if 0x30 \<le> c \<and> c \<le> 0x39 then Some (c - 0x30)
      else if 0x61 \<le> c \<and> c \<le> 0x66 then Some (c - 0x61 + 10)
      else if 0x41 \<le> c \<and> c \<le> 0x46 then Some (c - 0x41 + 10)
      else None)"
  by (simp add: fromHexChar_def)

lemma hex_digits_bytes:
  "set hex_digits = {0x30, 0x31, 0x32, 0x33, 0x34, 0x35, 0x36, 0x37, 0x38, 0x39,
                     0x61, 0x62, 0x63, 0x64, 0x65, 0x66, 0x41, 0x42, 0x43, 0x44, 0x45, 0x46}"
  by (simp add: hex_digits_def)

text \<open>Both table indices of the encoder are nibbles, so they are within the table.\<close>

lemma unat_high_nibble: "unat (drop_bit 4 (v::byte)) < 16"
proof -
  have "unat v < 256" using unsigned_less [of v] by simp
  then have "unat v div 16 < 16" by arith
  moreover have "unat (drop_bit 4 v) = unat v div 16"
    by (simp add: unat_drop_bit_eq drop_bit_eq_div unat_div)
  ultimately show ?thesis by simp
qed

lemma unat_low_nibble: "unat ((v::byte) AND 0x0f) < 16"
proof -
  have "v AND 0x0f = take_bit 4 v"
    by (simp add: take_bit_eq_mask mask_eq_exp_minus_1)
  then have "unat (v AND 0x0f) = take_bit 4 (unat v)"
    by (simp add: unsigned_take_bit_eq)
  also have "\<dots> < 2 ^ 4" by (rule take_bit_nat_less_exp)
  finally show ?thesis by simp
qed

lemma nibbles_join: "push_bit 4 (drop_bit 4 (v::byte)) OR (v AND 0x0f) = v"
proof -
  have m: "(0x0f :: byte) = mask 4" by (simp add: mask_eq_exp_minus_1)
  show ?thesis unfolding m
    by (rule bit_word_eqI) (auto simp: bit_simps)
qed

lemma fromHexChar_hextable_all:
  "list_all (\<lambda>k. fromHexChar (hextable ! k) = Some (of_nat k)) [0..<16]"
  by (simp add: upt_conv_Cons hextable_bytes fromHexChar_ranges)

lemma fromHexChar_hextable:
  assumes "n < 16"
  shows "fromHexChar (hextable ! n) = Some (of_nat n)"
  using fromHexChar_hextable_all assms by (simp only: list_all_iff set_upt) simp

lemma fromHexChar_high:
  "fromHexChar (hextable ! unat (drop_bit 4 (v::byte))) = Some (drop_bit 4 v)"
  using fromHexChar_hextable [OF unat_high_nibble [of v]] by simp

lemma fromHexChar_low:
  "fromHexChar (hextable ! unat ((v::byte) AND 0x0f)) = Some (v AND 0x0f)"
  using fromHexChar_hextable [OF unat_low_nibble [of v]] by simp

text \<open>\<open>fromHexChar\<close> accepts exactly the 22 hexadecimal digits.\<close>

lemma digit_codes_accepted:
  "list_all (\<lambda>k. (of_nat k :: byte) \<in> set hex_digits) ([48..<58] @ [97..<103] @ [65..<71])"
  by (simp add: hex_digits_bytes)

lemma digit_code_cases:
  assumes "lo \<le> unat (c::byte)" "unat c < hi"
    and "set [lo..<hi] \<subseteq> set ([48..<58] @ [97..<103] @ [65..<71])"
  shows "c \<in> set hex_digits"
proof -
  have "unat c \<in> set [lo..<hi]" using assms(1,2) by simp
  with assms(3) have "unat c \<in> set ([48..<58] @ [97..<103] @ [65..<71])" by blast
  with digit_codes_accepted have "(of_nat (unat c) :: byte) \<in> set hex_digits"
    by (simp only: list_all_iff)
  then show ?thesis by simp
qed

lemma fromHexChar_accepts_digits: "list_all (\<lambda>c. fromHexChar c \<noteq> None) hex_digits"
  by (simp add: hex_digits_def fromHexChar_ranges)

lemma fromHexChar_digit: "(fromHexChar c \<noteq> None) = (c \<in> set hex_digits)"
proof
  assume "fromHexChar c \<noteq> None"
  then consider "0x30 \<le> c \<and> c \<le> 0x39" | "0x61 \<le> c \<and> c \<le> 0x66"
    | "0x41 \<le> c \<and> c \<le> 0x46"
    by (auto simp: fromHexChar_ranges split: if_splits)
  then show "c \<in> set hex_digits"
  proof cases
    case 1
    then have "48 \<le> unat c" "unat c < 58" by (simp_all add: word_le_nat_alt)
    then show ?thesis by (rule digit_code_cases) simp
  next
    case 2
    then have "97 \<le> unat c" "unat c < 103" by (simp_all add: word_le_nat_alt)
    then show ?thesis by (rule digit_code_cases) simp
  next
    case 3
    then have "65 \<le> unat c" "unat c < 71" by (simp_all add: word_le_nat_alt)
    then show ?thesis by (rule digit_code_cases) simp
  qed
next
  assume "c \<in> set hex_digits"
  with fromHexChar_accepts_digits show "fromHexChar c \<noteq> None"
    by (simp only: list_all_iff) blast
qed

text \<open>The encoder: what it writes when the destination is long enough, and when not.\<close>

lemma length_hex_of: "length (hex_of src) = 2 * length src"
  by (induction src) (simp_all add: hex_of_def)

lemma hex_of_Cons:
  "hex_of (v # src) = hextable ! unat (drop_bit 4 v) # hextable ! unat (v AND 0x0f) # hex_of src"
  by (simp add: hex_of_def)

lemma hex_of_lowercase: "list_all (\<lambda>c. c \<in> set hextable) (hex_of src)"
proof -
  have len16: "length hextable = 16" by (simp add: hextable_def)
  show ?thesis
    by (induction src)
       (simp_all add: hex_of_Cons hex_of_def unat_high_nibble unat_low_nibble len16)
qed

lemma take_two_updates:
  assumes "j + 1 < length dst"
  shows "take (j + 2) (dst[j := a, j + 1 := b]) = take j dst @ [a, b]"
proof (rule nth_equalityI)
  show "length (take (j + 2) (dst[j := a, j + 1 := b])) = length (take j dst @ [a, b])"
    using assms by simp
next
  fix i assume "i < length (take (j + 2) (dst[j := a, j + 1 := b]))"
  then have i: "i < j + 2" by simp
  consider "i < j" | "i = j" | "i = j + 1" using i by linarith
  then show "take (j + 2) (dst[j := a, j + 1 := b]) ! i = (take j dst @ [a, b]) ! i"
    using assms by cases (simp_all add: nth_append)
qed

lemma hex_Encode_loop_fits:
  "j + 2 * length src \<le> length dst \<Longrightarrow>
   hex_Encode_loop dst j src = Return (take j dst @ hex_of src @ drop (j + 2 * length src) dst)"
proof (induction src arbitrary: dst j)
  case Nil
  then show ?case by (simp add: hex_of_def)
next
  case (Cons v src)
  let ?dst = "dst[j := hextable ! unat (drop_bit 4 v), j + 1 := hextable ! unat (v AND 0x0f)]"
  from Cons.prems have lt: "j + 1 < length dst" by simp
  from Cons.prems have fit: "(j + 2) + 2 * length src \<le> length ?dst" by simp
  have "hex_Encode_loop dst j (v # src) = hex_Encode_loop ?dst (j + 2) src"
    using lt by simp
  also have "\<dots> = Return (take (j + 2) ?dst @ hex_of src @ drop (j + 2 + 2 * length src) ?dst)"
    by (rule Cons.IH [OF fit])
  also have "take (j + 2) ?dst
               = take j dst @ [hextable ! unat (drop_bit 4 v), hextable ! unat (v AND 0x0f)]"
    by (rule take_two_updates [OF lt])
  also have "drop (j + 2 + 2 * length src) ?dst = drop (j + 2 * length (v # src)) dst"
    by simp
  finally show ?case by (simp add: hex_of_Cons)
qed

lemma hex_Encode_loop_overflow:
  "j \<le> length dst \<Longrightarrow> length dst < j + 2 * length src \<Longrightarrow>
   hex_Encode_loop dst j src = Panic IndexOutOfRange"
proof (induction src arbitrary: dst j)
  case Nil
  then show ?case by simp
next
  case (Cons v src)
  show ?case
  proof (cases "j + 1 < length dst")
    case True
    let ?dst = "dst[j := hextable ! unat (drop_bit 4 v), j + 1 := hextable ! unat (v AND 0x0f)]"
    have "j + 2 \<le> length ?dst" using True by simp
    moreover have "length ?dst < (j + 2) + 2 * length src" using Cons.prems by simp
    ultimately have "hex_Encode_loop ?dst (j + 2) src = Panic IndexOutOfRange"
      by (rule Cons.IH)
    then show ?thesis using True by simp
  next
    case False
    then show ?thesis by simp
  qed
qed

lemma hex_Encode_loop_panic_value:
  "hex_Encode_loop dst j src = Panic p \<Longrightarrow> p = IndexOutOfRange"
  by (induction dst j src rule: hex_Encode_loop.induct) (auto split: if_splits)

lemma hex_Encode_fits:
  "length dst = 2 * length src \<Longrightarrow> hex_Encode dst src = Return (hex_of src)"
  using hex_Encode_loop_fits [of 0 src dst] by (simp add: hex_Encode_def length_hex_of)

lemma hex_Encode_overflow:
  "length dst < 2 * length src \<Longrightarrow> hex_Encode dst src = Panic IndexOutOfRange"
  using hex_Encode_loop_overflow [of 0 dst src] by (simp add: hex_Encode_def)

text \<open>
  The decoder: it accepts exactly the valid hexadecimal texts (given room in the
  destination), and it inverts the encoder.
\<close>

lemma hex_Decode_loop_valid:
  "valid_hex src \<Longrightarrow> i + length src div 2 \<le> length dst \<Longrightarrow>
   \<exists>d. hex_Decode_loop dst i src = Return (d, None)"
proof (induction dst i src rule: hex_Decode_loop.induct)
  case (1 dst i)
  then show ?case by simp
next
  case (2 dst i p)
  then show ?case by (simp add: valid_hex_def)
next
  case (3 dst i p q src)
  from "3.prems" obtain a b where ab: "fromHexChar p = Some a" "fromHexChar q = Some b"
    using fromHexChar_digit [of p] fromHexChar_digit [of q] by (auto simp: valid_hex_def)
  from "3.prems" have i: "i < length dst" by simp
  have v: "valid_hex src" using "3.prems" by (simp add: valid_hex_def)
  have fit: "i + 1 + length src div 2 \<le> length (dst[i := push_bit 4 a OR b])"
    using "3.prems" by simp
  from "3.IH" [OF ab i v fit] show ?case using ab i by simp
qed

lemma hex_Decode_loop_invalid:
  "\<not> valid_hex src \<Longrightarrow> i + length src div 2 \<le> length dst \<Longrightarrow>
   \<exists>d e. hex_Decode_loop dst i src = Return (d, Some e)"
proof (induction dst i src rule: hex_Decode_loop.induct)
  case (1 dst i)
  then show ?case by (simp add: valid_hex_def)
next
  case (2 dst i p)
  then show ?case by (simp split: option.splits)
next
  case (3 dst i p q src)
  show ?case
  proof (cases "fromHexChar p")
    case None
    then show ?thesis by simp
  next
    case (Some a)
    note a = this
    show ?thesis
    proof (cases "fromHexChar q")
      case None
      then show ?thesis using a by simp
    next
      case (Some b)
      from "3.prems" have i: "i < length dst" by simp
      have "p \<in> set hex_digits" "q \<in> set hex_digits"
        using a Some fromHexChar_digit [of p] fromHexChar_digit [of q] by simp_all
      then have v: "\<not> valid_hex src" using "3.prems" by (simp add: valid_hex_def)
      have fit: "i + 1 + length src div 2 \<le> length (dst[i := push_bit 4 a OR b])"
        using "3.prems" by simp
      from "3.IH" [OF a Some i v fit] show ?thesis using a Some i by simp
    qed
  qed
qed

lemma hex_Decode_loop_hex_of:
  "i + length src \<le> length dst \<Longrightarrow>
   hex_Decode_loop dst i (hex_of src)
     = Return (take i dst @ src @ drop (i + length src) dst, None)"
proof (induction src arbitrary: dst i)
  case Nil
  then show ?case by (simp add: hex_of_def)
next
  case (Cons v src)
  from Cons.prems have i: "i < length dst" by simp
  have fit: "(i + 1) + length src \<le> length (dst[i := v])" using Cons.prems by simp
  have "hex_Decode_loop dst i (hex_of (v # src))
          = hex_Decode_loop (dst[i := v]) (i + 1) (hex_of src)"
    using i by (simp add: hex_of_Cons fromHexChar_high fromHexChar_low nibbles_join)
  also have "\<dots> = Return (take (i + 1) (dst[i := v]) @ src
                              @ drop (i + 1 + length src) (dst[i := v]), None)"
    by (rule Cons.IH [OF fit])
  also have "take (i + 1) (dst[i := v]) = take i dst @ [v]"
    using i by (simp add: take_Suc_conv_app_nth)
  also have "drop (i + 1 + length src) (dst[i := v]) = drop (i + length (v # src)) dst"
    by simp
  finally show ?case by simp
qed

lemma hex_Decode_hex_of:
  "length dst = length src \<Longrightarrow> hex_Decode dst (hex_of src) = Return (src, None)"
  using hex_Decode_loop_hex_of [of 0 src dst] by (simp add: hex_Decode_def)

lemma hex_Decode_valid:
  "valid_hex src \<Longrightarrow> length src div 2 \<le> length dst \<Longrightarrow>
   \<exists>d. hex_Decode dst src = Return (d, None)"
  using hex_Decode_loop_valid [of src 0 dst] by (simp add: hex_Decode_def)

lemma hex_Decode_invalid:
  "\<not> valid_hex src \<Longrightarrow> length src div 2 \<le> length dst \<Longrightarrow>
   \<exists>d e. hex_Decode dst src = Return (d, Some e)"
  using hex_Decode_loop_invalid [of src 0 dst] by (simp add: hex_Decode_def)

lemma valid_hex_halves:
  assumes "length s = 128"
  shows "valid_hex s = (valid_hex (take 64 s) \<and> valid_hex (drop 64 s))"
proof -
  have "list_all (\<lambda>c. c \<in> set hex_digits) (take 64 s @ drop 64 s)
          = (list_all (\<lambda>c. c \<in> set hex_digits) (take 64 s)
             \<and> list_all (\<lambda>c. c \<in> set hex_digits) (drop 64 s))"
    by (rule list_all_append)
  then show ?thesis using assms by (simp add: valid_hex_def)
qed

subsection \<open>The root key store\<close>

text \<open>
  C5 says that \<open>GenerateAndSaveNoiseRootKeyPair\<close> writes the private key as 64
  hexadecimal characters and returns nil when both writes succeed. The private key
  that \<open>ed25519.GenerateKey\<close> returns is 64 bytes long, its hexadecimal text is 128
  characters, and the buffer \<open>privateKeyHex\<close> holds 64: for every generated key pair,
  every pair of paths and every file system, \<open>hex.Encode\<close> runs past the end of the
  buffer, the function panics with an index out of range, and no file is written.
\<close>

theorem root_keypair_private_key_overflow:
  assumes "length privateKey = ed25519_PrivateKeySize"
  shows "GenerateAndSaveNoiseRootKeyPair (publicKey, privateKey) privFile pubFile w
           = (Panic IndexOutOfRange, w)"
proof -
  have second: "hex_Encode (replicate (32 * 2) 0) privateKey = Panic IndexOutOfRange"
    using assms by (intro hex_Encode_overflow) (simp add: ed25519_PrivateKeySize_def)
  show ?thesis
  proof (cases "hex_Encode (replicate (32 * 2) 0) publicKey")
    case (Panic p)
    then have "p = IndexOutOfRange"
      by (simp add: hex_Encode_def hex_Encode_loop_panic_value)
    then show ?thesis using Panic by (simp add: GenerateAndSaveNoiseRootKeyPair_def)
  next
    case (Return publicKeyHex)
    then show ?thesis using second by (simp add: GenerateAndSaveNoiseRootKeyPair_def)
  qed
qed

theorem root_keypair_private_key_overflow_witness:
  "length (replicate 64 (0::byte)) = ed25519_PrivateKeySize
   \<and> GenerateAndSaveNoiseRootKeyPair (replicate 32 0, replicate 64 0)
        ''root.priv'' ''root.pub'' empty_world = (Panic IndexOutOfRange, empty_world)"
  using root_keypair_private_key_overflow
    [of "replicate 64 0" "replicate 32 0" "''root.priv''" "''root.pub''" empty_world]
  by (simp add: ed25519_PrivateKeySize_def)

text \<open>
  For comparison: were both keys 32 bytes long, the function would do what C5
  describes (here for two distinct paths that can be written).
\<close>

lemma root_keypair_saved_for_short_keys:
  assumes "length publicKey = 32" "length privateKey = 32"
    and "\<not> unwritable w privFile" "\<not> unwritable w pubFile" "privFile \<noteq> pubFile"
  shows "\<exists>w'. GenerateAndSaveNoiseRootKeyPair (publicKey, privateKey) privFile pubFile w
                 = (Return None, w')
           \<and> files w' privFile
               = Some \<lparr>content = hex_of privateKey,
                       mode = (case files w privFile of None \<Rightarrow> 256 | Some f \<Rightarrow> mode f)\<rparr>
           \<and> files w' pubFile
               = Some \<lparr>content = hex_of publicKey,
                       mode = (case files w pubFile of None \<Rightarrow> 420 | Some f \<Rightarrow> mode f)\<rparr>"
  using assms
  by (simp add: GenerateAndSaveNoiseRootKeyPair_def hex_Encode_fits ioutil_WriteFile_def)

subsection \<open>Loading persisted keys\<close>

lemma LoadNoiseRootPublicKey_rejects:
  assumes "ioutil_ReadFile path w = Inr data" and "length data \<noteq> 64 \<or> \<not> valid_hex data"
  shows "\<exists>e. LoadNoiseRootPublicKey path w = Return (Inl e)"
proof (cases "length data = 64")
  case False
  then show ?thesis using assms(1) by (simp add: LoadNoiseRootPublicKey_def)
next
  case True
  with assms(2) have "\<not> valid_hex data" by simp
  from hex_Decode_invalid [OF this, of "replicate 32 0"] True
  obtain d e where "hex_Decode (replicate 32 0) data = Return (d, Some e)" by auto
  then show ?thesis using assms(1) True by (simp add: LoadNoiseRootPublicKey_def)
qed

lemma LoadNoiseRootPrivateKey_rejects:
  assumes "ioutil_ReadFile path w = Inr data" and "length data \<noteq> 64 \<or> \<not> valid_hex data"
  shows "\<exists>e. LoadNoiseRootPrivateKey path w = Return (Inl e)"
proof (cases "length data = 64")
  case False
  then show ?thesis using assms(1) by (simp add: LoadNoiseRootPrivateKey_def)
next
  case True
  with assms(2) have "\<not> valid_hex data" by simp
  from hex_Decode_invalid [OF this, of "replicate 32 0"] True
  obtain d e where "hex_Decode (replicate 32 0) data = Return (d, Some e)" by auto
  then show ?thesis using assms(1) True by (simp add: LoadNoiseRootPrivateKey_def)
qed

lemma LoadNoiseKeyPair_rejects:
  assumes "ioutil_ReadFile path w = Inr data" and "length data \<noteq> 128 \<or> \<not> valid_hex data"
  shows "\<exists>e. LoadNoiseKeyPair path w = Return (Inl e)"
proof (cases "length data = 128")
  case False
  then show ?thesis using assms(1) by (simp add: LoadNoiseKeyPair_def)
next
  case True
  with assms(2) have bad: "\<not> valid_hex (take 64 data) \<or> \<not> valid_hex (drop 64 data)"
    by (simp add: valid_hex_halves)
  show ?thesis
  proof (cases "valid_hex (take 64 data)")
    case False
    from hex_Decode_invalid [OF this, of "replicate 32 0"] True
    obtain d e where "hex_Decode (replicate 32 0) (take 64 data) = Return (d, Some e)"
      by auto
    then show ?thesis using assms(1) True by (simp add: LoadNoiseKeyPair_def)
  next
    case first: True
    from hex_Decode_valid [OF this, of "replicate 32 0"] True
    obtain d where d: "hex_Decode (replicate 32 0) (take 64 data) = Return (d, None)"
      by auto
    from bad first have "\<not> valid_hex (drop 64 data)" by simp
    from hex_Decode_invalid [OF this, of "replicate 32 0"] True
    obtain d' e where "hex_Decode (replicate 32 0) (drop 64 data) = Return (d', Some e)"
      by auto
    then show ?thesis using assms(1) True d by (simp add: LoadNoiseKeyPair_def)
  qed
qed

text \<open>
  C6. A key file of the wrong size or with content that is not valid hexadecimal is a
  parse failure: for every file that can be read, \<open>LoadNoiseRootPublicKey\<close> and
  \<open>LoadNoiseRootPrivateKey\<close> return an error and no key when its content is not exactly
  64 bytes or not valid hexadecimal, and \<open>LoadNoiseKeyPair\<close> returns an error and no
  key pair when its content is not exactly 128 bytes or not valid hexadecimal.
\<close>

theorem load_rejects_malformed_files:
  assumes "ioutil_ReadFile path w = Inr data"
  shows "(length data \<noteq> 64 \<or> \<not> valid_hex data \<longrightarrow>
            (\<exists>e. LoadNoiseRootPublicKey path w = Return (Inl e))
            \<and> (\<exists>e. LoadNoiseRootPrivateKey path w = Return (Inl e)))
         \<and> (length data \<noteq> 128 \<or> \<not> valid_hex data \<longrightarrow>
            (\<exists>e. LoadNoiseKeyPair path w = Return (Inl e)))"
  using LoadNoiseRootPublicKey_rejects [OF assms] LoadNoiseRootPrivateKey_rejects [OF assms]
    LoadNoiseKeyPair_rejects [OF assms]
  by blast

theorem load_rejects_malformed_files_witness:
  "ioutil_ReadFile ''key'' (world_with ''key'' [0x30, 0x31, 0x32]) = Inr [0x30, 0x31, 0x32]
   \<and> length [0x30, 0x31, 0x32 :: byte] \<noteq> 64
   \<and> length [0x30, 0x31, 0x32 :: byte] \<noteq> 128
   \<and> (\<exists>e. LoadNoiseRootPublicKey ''key'' (world_with ''key'' [0x30, 0x31, 0x32])
             = Return (Inl e))
   \<and> (\<exists>e. LoadNoiseRootPrivateKey ''key'' (world_with ''key'' [0x30, 0x31, 0x32])
             = Return (Inl e))
   \<and> (\<exists>e. LoadNoiseKeyPair ''key'' (world_with ''key'' [0x30, 0x31, 0x32])
             = Return (Inl e))
   \<and> ioutil_ReadFile ''key'' (world_with ''key'' (replicate 64 0x7a))
        = Inr (replicate 64 0x7a)
   \<and> \<not> valid_hex (replicate 64 0x7a)
   \<and> (\<exists>e. LoadNoiseRootPublicKey ''key'' (world_with ''key'' (replicate 64 0x7a))
             = Return (Inl e))"
proof -
  have r1: "ioutil_ReadFile ''key'' (world_with ''key'' [0x30, 0x31, 0x32])
              = Inr [0x30, 0x31, 0x32]"
    by (simp add: ioutil_ReadFile_def world_with_def)
  have r2: "ioutil_ReadFile ''key'' (world_with ''key'' (replicate 64 0x7a))
              = Inr (replicate 64 0x7a)"
    by (simp add: ioutil_ReadFile_def world_with_def)
  have bad: "\<not> valid_hex (replicate 64 0x7a)"
    by (simp add: valid_hex_def list_all_iff hex_digits_bytes)
  from load_rejects_malformed_files [OF r1] load_rejects_malformed_files [OF r2] r1 r2 bad
  show ?thesis by simp
qed

subsection \<open>The static key pair store\<close>

text \<open>
  C7. Round trip of the static key pair store: for every key pair (two arrays of 32
  bytes) and every path that can be written, \<open>GenerateAndSaveNoiseKeyPair\<close> returns
  nil and leaves in that one file exactly 128 lowercase hexadecimal characters, the
  text of the private key followed by the text of the public key, every other file
  being as before; and \<open>LoadNoiseKeyPair\<close> on that file returns the key pair that
  was saved.
\<close>

theorem keypair_store_roundtrip:
  assumes "length (PrivateKey keyPair) = 32" and "length (PublicKey keyPair) = 32"
    and "\<not> unwritable w path"
  shows "\<exists>w'. GenerateAndSaveNoiseKeyPair keyPair path w = (Return None, w')
           \<and> map_option content (files w' path)
               = Some (hex_of (PrivateKey keyPair) @ hex_of (PublicKey keyPair))
           \<and> length (hex_of (PrivateKey keyPair) @ hex_of (PublicKey keyPair)) = 128
           \<and> list_all (\<lambda>c. c \<in> set hextable)
                (hex_of (PrivateKey keyPair) @ hex_of (PublicKey keyPair))
           \<and> (\<forall>other. other \<noteq> path \<longrightarrow> files w' other = files w other)
           \<and> LoadNoiseKeyPair path w' = Return (Inr keyPair)"
proof -
  let ?priv = "PrivateKey keyPair" and ?pub = "PublicKey keyPair"
  let ?data = "hex_of ?priv @ hex_of ?pub"
  let ?w' = "w\<lparr>files := (files w)(path \<mapsto>
              \<lparr>content = ?data,
               mode = (case files w path of None \<Rightarrow> 420 | Some f \<Rightarrow> mode f)\<rparr>)\<rparr>"
  have e1: "hex_Encode (replicate 64 0) ?priv = Return (hex_of ?priv)"
    using assms(1) by (intro hex_Encode_fits) simp
  have e2: "hex_Encode (replicate 64 0) ?pub = Return (hex_of ?pub)"
    using assms(2) by (intro hex_Encode_fits) simp
  have save: "GenerateAndSaveNoiseKeyPair keyPair path w = (Return None, ?w')"
    using assms
    by (simp add: GenerateAndSaveNoiseKeyPair_def e1 e2 length_hex_of ioutil_WriteFile_def)
  have len: "length ?data = 128" using assms by (simp add: length_hex_of)
  have lower: "list_all (\<lambda>c. c \<in> set hextable) ?data"
    by (simp add: hex_of_lowercase)
  have d1: "hex_Decode (replicate 32 0) (take 64 ?data) = Return (?priv, None)"
    using assms(1) by (simp add: length_hex_of hex_Decode_hex_of)
  have d2: "hex_Decode (replicate 32 0) (drop 64 ?data) = Return (?pub, None)"
    using assms by (simp add: length_hex_of hex_Decode_hex_of)
  have load: "LoadNoiseKeyPair path ?w' = Return (Inr keyPair)"
    using len d1 d2 by (simp add: LoadNoiseKeyPair_def ioutil_ReadFile_def)
  show ?thesis using save len lower load by simp
qed

theorem keypair_store_roundtrip_witness:
  "length (PrivateKey kp0) = 32 \<and> length (PublicKey kp0) = 32
   \<and> \<not> unwritable empty_world ''noise.key''
   \<and> (\<exists>w'. GenerateAndSaveNoiseKeyPair kp0 ''noise.key'' empty_world = (Return None, w')
         \<and> LoadNoiseKeyPair ''noise.key'' w' = Return (Inr kp0))"
proof -
  have h1: "length (PrivateKey kp0) = 32" by (simp add: kp0_def)
  have h2: "length (PublicKey kp0) = 32" by (simp add: kp0_def)
  have h3: "\<not> unwritable empty_world ''noise.key''" by (simp add: empty_world_def)
  from keypair_store_roundtrip [OF h1 h2 h3] h1 h2 h3 show ?thesis by blast
qed

end
